theory Spec2Isabelle
  imports Main "HOL-Library.Word"
begin

section \<open>The sample namespace of sample.cpp\<close>

text \<open>
  The file \<^verbatim>\<open>sample.cpp\<close> holds a class template \<^verbatim>\<open>Stack<T>\<close> over a
  \<^verbatim>\<open>std::vector<T>\<close>, the function \<^verbatim>\<open>factorial\<close> on \<^verbatim>\<open>uint64_t\<close> and the
  function \<^verbatim>\<open>is_palindrome\<close> on \<^verbatim>\<open>std::string\<close>. Each is embedded below as a HOL
  function that computes what the C++ computes. Storage is unbounded in the model:
  allocation failure of the vector and the depth of the call stack are not represented.
\<close>

subsection \<open>Stack\<close>

text \<open>
  The class has the single private member \<^verbatim>\<open>std::vector<T> data_\<close>. The vector is a
  list whose last element is \<^verbatim>\<open>data_.back()\<close>. (The field is called \<open>data\<close>, since a
  name cannot end in an underscore here.)
\<close>

record 'a Stack =
  data :: "'a list"

text \<open>The only exception thrown in the file: \<^verbatim>\<open>std::runtime_error\<close> with its message.\<close>

datatype error = runtime_error string

text \<open>\<^verbatim>\<open>Stack() = default\<close>: the vector is default-constructed, hence empty.\<close>

definition Stack_default :: "'a Stack" where
  "Stack_default = \<lparr>data = []\<rparr>"

text \<open>\<^verbatim>\<open>void push(T value) { data_.push_back(std::move(value)); }\<close>\<close>

definition Stack_push :: "'a \<Rightarrow> 'a Stack \<Rightarrow> 'a Stack" where
  "Stack_push v s = s\<lparr>data := data s @ [v]\<rparr>"

text \<open>
  \<^verbatim>\<open>T pop()\<close> and \<^verbatim>\<open>const T& top() const\<close> return the outcome of the call together
  with the stack after the call. The \<^verbatim>\<open>throw\<close> comes before any write to the vector,
  so the stack after a failed call is the stack before it; \<^verbatim>\<open>top\<close> is a const member
  and writes nothing on either path. \<^verbatim>\<open>pop\<close> returns a \<^verbatim>\<open>T\<close> by value, read from
  \<^verbatim>\<open>data_.back()\<close> before \<^verbatim>\<open>pop_back()\<close>.
\<close>

definition Stack_pop :: "'a Stack \<Rightarrow> (error + 'a) \<times> 'a Stack" where
  "Stack_pop s =
     (if data s = [] then (Inl (runtime_error ''Stack is empty''), s)
      else (let v = last (data s) in (Inr v, s\<lparr>data := butlast (data s)\<rparr>)))"

text \<open>
  \<^verbatim>\<open>top\<close> returns a \<^verbatim>\<open>const T&\<close>, and its body is \<^verbatim>\<open>return data_.back();\<close> in a const
  member, that is \<^verbatim>\<open>std::vector<T>::back() const\<close>. What that call is depends on the
  element type. For every \<^verbatim>\<open>T\<close> but \<^verbatim>\<open>bool\<close> it is a \<^verbatim>\<open>const T&\<close> to the last element
  of the vector, which \<^verbatim>\<open>top\<close> hands on. \<^verbatim>\<open>std::vector<bool>\<close> is the library's
  bit-packed specialization: its \<^verbatim>\<open>back() const\<close> returns a \<^verbatim>\<open>bool\<close> by value, so the
  reference \<^verbatim>\<open>top\<close> returns is bound to a temporary that is gone once \<^verbatim>\<open>top\<close> has
  returned.

  \<open>vector_bool\<close> tells whether the element type is \<^verbatim>\<open>bool\<close>. A returned reference is
  \<open>Ref v\<close>, a reference to a stored element of value \<open>v\<close>, or \<open>Dangling\<close>, a reference
  to an object that does not exist any more: reading through it is undefined, and no
  value comes with it.
\<close>

definition vector_bool :: "'a::typerep itself \<Rightarrow> bool" where
  "vector_bool T = (Typerep.typerep T = Typerep.typerep TYPE(bool))"

datatype 'a reference = Ref 'a | Dangling

definition Stack_top :: "'a::typerep Stack \<Rightarrow> (error + 'a reference) \<times> 'a Stack" where
  "Stack_top s =
     (if data s = [] then (Inl (runtime_error ''Stack is empty''), s)
      else if vector_bool TYPE('a) then (Inr Dangling, s)
      else (Inr (Ref (last (data s))), s))"

text \<open>\<^verbatim>\<open>empty()\<close> and \<^verbatim>\<open>size()\<close> are const and noexcept: pure queries.\<close>

definition Stack_empty :: "'a Stack \<Rightarrow> bool" where
  "Stack_empty s = (data s = [])"

definition Stack_size :: "'a Stack \<Rightarrow> nat" where
  "Stack_size s = length (data s)"

subsection \<open>Sequences of calls\<close>

text \<open>Pushing the values of a list one after the other, first element first.\<close>

fun push_all :: "'a list \<Rightarrow> 'a Stack \<Rightarrow> 'a Stack" where
  "push_all [] s = s"
| "push_all (v # vs) s = push_all vs (Stack_push v s)"

text \<open>
  Popping \<open>n\<close> times and collecting the returned values in the order of the calls. An
  exception ends the sequence and is the outcome, as it would propagate to the caller.
\<close>

fun pop_n :: "nat \<Rightarrow> 'a Stack \<Rightarrow> (error + 'a list) \<times> 'a Stack" where
  "pop_n 0 s = (Inr [], s)"
| "pop_n (Suc n) s =
     (case Stack_pop s of
        (Inl e, s') \<Rightarrow> (Inl e, s')
      | (Inr v, s') \<Rightarrow>
          (case pop_n n s' of
             (Inl e, s'') \<Rightarrow> (Inl e, s'')
           | (Inr vs, s'') \<Rightarrow> (Inr (v # vs), s'')))"

text \<open>
  An arbitrary client of the class: any sequence of calls of the five public member
  functions, where the client catches a failure and goes on. Each call yields its
  outcome; the outcomes are collected in order.
\<close>

datatype 'a call = Push 'a | Pop | Top | Empty | Size

datatype 'a ret = RVoid | RVal 'a | RRef "'a reference" | RBool bool | RSize nat

fun invoke :: "'a::typerep call \<Rightarrow> 'a Stack \<Rightarrow> (error + 'a ret) \<times> 'a Stack" where
  "invoke (Push v) s = (Inr RVoid, Stack_push v s)"
| "invoke Pop s = (case Stack_pop s of (r, s') \<Rightarrow> (map_sum id RVal r, s'))"
| "invoke Top s = (case Stack_top s of (r, s') \<Rightarrow> (map_sum id RRef r, s'))"
| "invoke Empty s = (Inr (RBool (Stack_empty s)), s)"
| "invoke Size s = (Inr (RSize (Stack_size s)), s)"

fun run :: "'a::typerep call list \<Rightarrow> 'a Stack \<Rightarrow> (error + 'a ret) list \<times> 'a Stack" where
  "run [] s = ([], s)"
| "run (c # cs) s =
     (case invoke c s of
        (r, s') \<Rightarrow> (case run cs s' of (rs, s'') \<Rightarrow> (r # rs, s'')))"

text \<open>The number of successful pushes and of successful pops in a run.\<close>

fun pushed :: "'a call list \<Rightarrow> (error + 'a ret) list \<Rightarrow> nat" where
  "pushed (Push v # cs) (Inr r # rs) = Suc (pushed cs rs)"
| "pushed (c # cs) (r # rs) = pushed cs rs"
| "pushed cs rs = 0"

fun popped :: "'a call list \<Rightarrow> (error + 'a ret) list \<Rightarrow> nat" where
  "popped (Pop # cs) (Inr r # rs) = Suc (popped cs rs)"
| "popped (c # cs) (r # rs) = popped cs rs"
| "popped cs rs = 0"

subsection \<open>factorial\<close>

text \<open>
  \<^verbatim>\<open>constexpr uint64_t factorial(uint64_t n) { return n <= 1 ? 1 : n * factorial(n - 1); }\<close>
  on 64-bit words, whose multiplication and subtraction wrap. The recursion is not
  structural; it ends because \<open>unat n\<close> decreases.
\<close>

function factorial :: "64 word \<Rightarrow> 64 word" where
  "factorial n = (if n \<le> 1 then 1 else n * factorial (n - 1))"
  by pat_completeness auto
termination
proof (relation "measure unat")
  show "wf (measure (unat :: 64 word \<Rightarrow> nat))" by simp
next
  fix n :: "64 word"
  assume "\<not> n \<le> 1"
  then have "n \<noteq> 0" by auto
  then have "unat (n - 1) = unat n - 1" by (rule unat_minus_one)
  moreover from \<open>n \<noteq> 0\<close> have "unat n \<noteq> 0" by (simp add: unat_eq_0)
  ultimately show "(n - 1, n) \<in> measure unat" by simp
qed

declare factorial.simps [simp del]

text \<open>
  The same body with non-termination as a possible outcome: \<open>None\<close> stands for a call
  that never returns. Nothing about termination is built into this definition.
\<close>

partial_function (option) factorial_call :: "64 word \<Rightarrow> 64 word option" where
  "factorial_call n =
     (if n \<le> 1 then Some 1
      else Option.bind (factorial_call (n - 1)) (\<lambda>r. Some (n * r)))"

subsection \<open>is_palindrome\<close>






section \<open>Properties\<close>

subsection \<open>factorial\<close>

lemma factorial_unfold:
  "factorial n = (if n \<le> 1 then 1 else n * factorial (n - 1))"
  by (rule factorial.simps)

text \<open>
  Claim C4. For every 64-bit \<open>n\<close>, \<open>factorial n\<close> is 1 when \<open>n \<le> 1\<close> and otherwise
  the product of \<open>n\<close> and \<open>factorial (n - 1)\<close> reduced modulo \<open>2 ^ 64\<close>, with no error
  on overflow; \<open>factorial 0 = 1\<close>, \<open>factorial 1 = 1\<close> and \<open>factorial 5 = 120\<close>.
\<close>

theorem factorial_recurrence:
  "(n \<le> 1 \<longrightarrow> factorial n = 1) \<and>
   (\<not> n \<le> 1 \<longrightarrow>
      factorial n = n * factorial (n - 1) \<and>
      unat (factorial n) = (unat n * unat (factorial (n - 1))) mod 2 ^ 64) \<and>
   factorial 0 = 1 \<and> factorial 1 = 1 \<and> factorial 5 = 120"
proof -
  have base: "n \<le> 1 \<longrightarrow> factorial n = 1"
    by (simp add: factorial_unfold)
  have step: "\<not> n \<le> 1 \<longrightarrow> factorial n = n * factorial (n - 1)"
    by (subst factorial_unfold) simp
  have wrap: "unat (n * factorial (n - 1)) = (unat n * unat (factorial (n - 1))) mod 2 ^ 64"
    by (simp add: unat_word_ariths)
  have f0: "factorial 0 = 1" by code_simp
  have f1: "factorial 1 = 1" by code_simp
  have f5: "factorial 5 = 120" by code_simp
  from base step wrap f0 f1 f5 show ?thesis by simp
qed

theorem factorial_recurrence_witness:
  "(0 :: 64 word) \<le> 1 \<and> factorial 0 = 1 \<and>
   \<not> (21 :: 64 word) \<le> 1 \<and> factorial 21 = 21 * factorial 20 \<and>
   unat (factorial 21) = (21 * unat (factorial 20)) mod 2 ^ 64 \<and>
   factorial 20 = 2432902008176640000 \<and> factorial 21 = 14197454024290336768"
proof -
  have a: "(0 :: 64 word) \<le> 1" by simp
  have b: "\<not> (21 :: 64 word) \<le> 1" by code_simp
  have c: "factorial 20 = 2432902008176640000" by code_simp
  have d: "factorial 21 = 14197454024290336768" by code_simp
  from a b c d factorial_recurrence [of 0] factorial_recurrence [of 21]
  show ?thesis by simp
qed

text \<open>
  Claim C8. \<open>factorial\<close> is total: for every 64-bit \<open>n\<close> the call returns a value,
  and that value is the one the recurrence determines. The statement is about
  \<open>factorial_call\<close>, where a call that does not return would be \<open>None\<close>.
\<close>

theorem factorial_call_returns:
  "factorial_call n = Some (factorial n)"
proof (induction n rule: factorial.induct)
  case (1 n)
  show ?case
  proof (cases "n \<le> 1")
    case True
    then show ?thesis
      by (subst factorial_call.simps, subst factorial_unfold) simp
  next
    case False
    with "1" have "factorial_call (n - 1) = Some (factorial (n - 1))" by simp
    with False show ?thesis
      by (subst factorial_call.simps, subst factorial_unfold) simp
  qed
qed

subsection \<open>Stack: single calls\<close>

lemma Stack_pop_push: "Stack_pop (Stack_push v s) = (Inr v, s)"
  by (simp add: Stack_pop_def Stack_push_def)

lemma Stack_size_default: "Stack_size Stack_default = 0"
  by (simp add: Stack_size_def Stack_default_def)

lemma vector_bool_bool: "vector_bool TYPE(bool)"
  by (simp add: vector_bool_def)

lemma vector_bool_int: "\<not> vector_bool TYPE(int)"
  by (simp add: vector_bool_def typerep_bool_def typerep_int_def)

lemma vector_bool_string: "\<not> vector_bool TYPE(string)"
  by (simp add: vector_bool_def typerep_bool_def typerep_list_def)

text \<open>
  Claim C2. \<open>pop\<close> and \<open>top\<close> signal the empty-container failure exactly when the
  stack is empty, and no other failure: on an empty stack both yield
  \<open>runtime_error ''Stack is empty''\<close> and leave the stack as it was; on a non-empty
  stack both succeed; whatever error either call yields is that one, and the stack
  was empty.
\<close>

theorem pop_top_fail_iff_empty:
  "(Stack_empty s \<longrightarrow>
      Stack_pop s = (Inl (runtime_error ''Stack is empty''), s) \<and>
      Stack_top s = (Inl (runtime_error ''Stack is empty''), s)) \<and>
   (\<not> Stack_empty s \<longrightarrow>
      (\<exists>v s'. Stack_pop s = (Inr v, s')) \<and> (\<exists>v. Stack_top s = (Inr v, s))) \<and>
   (\<forall>e. fst (Stack_pop s) = Inl e \<or> fst (Stack_top s) = Inl e \<longrightarrow>
      e = runtime_error ''Stack is empty'' \<and> Stack_empty s)"
  by (auto simp: Stack_pop_def Stack_top_def Stack_empty_def Let_def)

theorem pop_top_fail_iff_empty_witness:
  "Stack_empty (Stack_default :: int Stack) \<and>
   Stack_pop (Stack_default :: int Stack) =
     (Inl (runtime_error ''Stack is empty''), Stack_default) \<and>
   Stack_top (Stack_default :: int Stack) =
     (Inl (runtime_error ''Stack is empty''), Stack_default) \<and>
   \<not> Stack_empty (Stack_push (7 :: int) Stack_default) \<and>
   Stack_pop (Stack_push (7 :: int) Stack_default) = (Inr 7, Stack_default) \<and>
   Stack_top (Stack_push (7 :: int) Stack_default) =
     (Inr (Ref 7), Stack_push 7 Stack_default)"
  using pop_top_fail_iff_empty [of "Stack_default :: int Stack"]
    pop_top_fail_iff_empty [of "Stack_push (7 :: int) Stack_default"]
  by (simp add: Stack_default_def Stack_push_def Stack_pop_def Stack_top_def
      Stack_empty_def vector_bool_int)

text \<open>
  Claim C6. \<open>push v\<close> always succeeds: as a call it yields the void outcome, never an
  error. Afterwards \<open>v\<close> is the top element, the last of the stored sequence, the size
  has grown by one, and the elements stored before are all there, unchanged and in
  the same order, below \<open>v\<close>: the first \<open>size\<close> elements are the old contents, and
  popping gives back \<open>v\<close> and the stack as it was before the push. A call of \<open>top\<close>
  after the push succeeds and leaves the stack alone; the reference it returns is to
  \<open>v\<close>, except on a stack of \<^verbatim>\<open>bool\<close>, where it dangles.
\<close>

theorem push_effect:
  "fst (invoke (Push v) s) = Inr RVoid \<and>
   snd (invoke (Push v) s) = Stack_push v s \<and>
   last (data (Stack_push v s)) = v \<and>
   Stack_top (Stack_push v s) =
     (Inr (if vector_bool TYPE('a) then Dangling else Ref v), Stack_push v s) \<and>
   Stack_size (Stack_push v s) = Stack_size s + 1 \<and>
   Stack_empty (Stack_push v s) = False \<and>
   take (Stack_size s) (data (Stack_push v s)) = data s \<and>
   Stack_pop (Stack_push v s) = (Inr v, s)"
  for v :: "'a::typerep"
  by (simp add: Stack_push_def Stack_top_def Stack_size_def Stack_empty_def Stack_pop_def)

theorem push_effect_witness:
  "Stack_top (Stack_push (3 :: int) (Stack_push 2 Stack_default)) =
     (Inr (Ref 3), Stack_push 3 (Stack_push 2 Stack_default)) \<and>
   Stack_pop (Stack_push (3 :: int) (Stack_push 2 Stack_default)) =
     (Inr 3, Stack_push 2 Stack_default) \<and>
   Stack_size (Stack_push (3 :: int) (Stack_push 2 Stack_default)) = 2 \<and>
   data (Stack_push (3 :: int) (Stack_push 2 Stack_default)) = [2, 3]"
  using push_effect [of "3 :: int" "Stack_push 2 Stack_default"]
  by (simp add: vector_bool_int Stack_push_def Stack_default_def Stack_size_def)

text \<open>
  What \<open>top\<close> does on a non-empty stack. It never changes the stack. When the element
  type is not \<^verbatim>\<open>bool\<close> it returns a reference to the top element, the one \<open>pop\<close>
  would return and remove.
\<close>

lemma Stack_top_unchanged: "snd (Stack_top s) = s"
  by (simp add: Stack_top_def)

lemma Stack_top_other:
  fixes s :: "'a::typerep Stack"
  assumes "\<not> vector_bool TYPE('a)" and "\<not> Stack_empty s"
  shows "Stack_top s = (Inr (Ref (last (data s))), s)"
  using assms by (simp add: Stack_top_def Stack_empty_def)

lemma Stack_top_pop_other:
  fixes s :: "'a::typerep Stack"
  assumes "\<not> vector_bool TYPE('a)" and "\<not> Stack_empty s"
  shows "\<exists>v s'. Stack_top s = (Inr (Ref v), s) \<and> Stack_pop s = (Inr v, s') \<and>
           data s = data s' @ [v] \<and> Stack_size s' + 1 = Stack_size s"
  using assms
  by (simp add: Stack_top_def Stack_pop_def Stack_empty_def Stack_size_def)

lemma Stack_top_int_example:
  "Stack_top (push_all [1, 2, 3 :: int] Stack_default) =
     (Inr (Ref 3), push_all [1, 2, 3] Stack_default) \<and>
   Stack_pop (push_all [1, 2, 3 :: int] Stack_default) =
     (Inr 3, push_all [1, 2] Stack_default)"
  by (simp add: Stack_top_def Stack_pop_def Stack_push_def Stack_default_def
      vector_bool_int)

text \<open>
  Claim C7. On every non-empty stack \<open>top\<close> should return the top element without
  removing it, the size and the stored sequence staying as they were. The stack does
  stay as it was, but on a non-empty stack of \<^verbatim>\<open>bool\<close> the call does not return the
  top element: after \<^verbatim>\<open>push(true)\<close> on an empty \<^verbatim>\<open>Stack<bool>\<close> the stack is not empty
  and stores \<open>True\<close>, while the reference \<open>top\<close> returns dangles.
\<close>

theorem top_dangles_on_bool_stack:
  "Stack_empty (Stack_push True Stack_default) = False \<and>
   data (Stack_push True Stack_default) = [True] \<and>
   Stack_top (Stack_push True Stack_default) =
     (Inr Dangling, Stack_push True Stack_default) \<and>
   fst (Stack_top (Stack_push True Stack_default)) \<noteq> Inr (Ref True)"
  by (simp add: Stack_top_def Stack_empty_def Stack_push_def Stack_default_def
      vector_bool_bool)

text \<open>
  Claim C10. On every non-empty stack the value \<open>top\<close> returns should be the value
  \<open>pop\<close> returns on the same stack, \<open>pop\<close> removing exactly that element. On a stack
  of \<^verbatim>\<open>bool\<close> holding \<open>False, True\<close> the call of \<open>pop\<close> returns \<open>True\<close> and leaves
  \<open>False\<close>, as it should, but \<open>top\<close> returns a dangling reference and not a reference
  to \<open>True\<close>.
\<close>

theorem top_pop_differ_on_bool_stack:
  "Stack_empty (push_all [False, True] Stack_default) = False \<and>
   Stack_pop (push_all [False, True] Stack_default) =
     (Inr True, push_all [False] Stack_default) \<and>
   Stack_top (push_all [False, True] Stack_default) =
     (Inr Dangling, push_all [False, True] Stack_default) \<and>
   fst (Stack_top (push_all [False, True] Stack_default)) \<noteq> Inr (Ref True)"
  by (simp add: Stack_top_def Stack_pop_def Stack_empty_def Stack_push_def
      Stack_default_def vector_bool_bool)

subsection \<open>Stack: sequences of calls\<close>

lemma push_all_snoc: "push_all (vs @ [v]) s = Stack_push v (push_all vs s)"
  by (induction vs arbitrary: s) simp_all

lemma pop_n_push_all: "pop_n (length vs) (push_all vs s) = (Inr (rev vs), s)"
proof (induction vs rule: rev_induct)
  case Nil
  show ?case by simp
next
  case (snoc v vs)
  then show ?case
    by (simp add: push_all_snoc Stack_pop_push)
qed

text \<open>
  Claim C1 (LIFO law). Pushing \<open>v1, ..., vk\<close> onto an initially empty stack and then
  popping \<open>k\<close> times succeeds and returns \<open>vk, ..., v1\<close>, the values in reverse order
  of insertion, and leaves the stack empty again. The same holds above the contents
  of any stack.
\<close>

theorem lifo_law:
  "pop_n (length vs) (push_all vs Stack_default) = (Inr (rev vs), Stack_default) \<and>
   pop_n (length vs) (push_all vs s) = (Inr (rev vs), s)"
  by (simp add: pop_n_push_all)

lemma invoke_counts:
  assumes "invoke c s = (r, s')"
  shows "Stack_size s' + popped [c] [r] = Stack_size s + pushed [c] [r]"
proof (cases c)
  case (Push v)
  with assms show ?thesis by (auto simp: Stack_push_def Stack_size_def)
next
  case Pop
  with assms show ?thesis
    by (auto simp: Stack_pop_def Stack_size_def Let_def split: if_splits)
next
  case Top
  with assms show ?thesis
    by (auto simp: Stack_top_def Stack_size_def split: if_splits)
next
  case Empty
  with assms show ?thesis by auto
next
  case Size
  with assms show ?thesis by auto
qed

lemma pushed_Cons: "pushed (c # cs) (r # rs) = pushed [c] [r] + pushed cs rs"
  by (cases "(c # cs, r # rs)" rule: pushed.cases) auto

lemma popped_Cons: "popped (c # cs) (r # rs) = popped [c] [r] + popped cs rs"
  by (cases "(c # cs, r # rs)" rule: popped.cases) auto

lemma run_counts:
  "run cs s = (rs, s') \<Longrightarrow> Stack_size s' + popped cs rs = Stack_size s + pushed cs rs"
proof (induction cs arbitrary: s rs s')
  case Nil
  then show ?case by simp
next
  case (Cons c cs)
  obtain r s1 where c: "invoke c s = (r, s1)" by (cases "invoke c s")
  obtain rs1 s2 where r: "run cs s1 = (rs1, s2)" by (cases "run cs s1")
  from Cons.prems c r have eq: "rs = r # rs1" "s' = s2" by simp_all
  from Cons.IH [OF r] have "Stack_size s2 + popped cs rs1 = Stack_size s1 + pushed cs rs1" .
  moreover from invoke_counts [OF c]
  have "Stack_size s1 + popped [c] [r] = Stack_size s + pushed [c] [r]" .
  ultimately show ?case
    unfolding eq pushed_Cons [of c cs r rs1] popped_Cons [of c cs r rs1] by arith
qed

lemma run_example:
  "run [Push 1, Push 2, Pop, Top, Size, Pop, Pop, Empty, Push (5 :: int)] Stack_default =
     ([Inr RVoid, Inr RVoid, Inr (RVal 2), Inr (RRef (Ref 1)), Inr (RSize 1), Inr (RVal 1),
       Inl (runtime_error ''Stack is empty''), Inr (RBool True), Inr RVoid],
      Stack_push 5 Stack_default)"
  by (simp add: Stack_default_def Stack_push_def Stack_pop_def Stack_top_def
      Stack_size_def Stack_empty_def vector_bool_int)

text \<open>
  Claim C5. Whatever sequence of calls a client makes, every call keeps the balance
  "size plus successful pops equals initial size plus successful pushes". Hence for a
  stack built from the empty one by \<open>k\<close> successful pushes and \<open>j\<close> successful pops,
  in any order and among any other calls, \<open>j \<le> k\<close> and the size is \<open>k - j\<close>.
\<close>

theorem size_is_pushed_minus_popped:
  assumes "run cs s0 = (rs, s)"
  shows "Stack_size s + popped cs rs = Stack_size s0 + pushed cs rs \<and>
         (s0 = Stack_default \<longrightarrow>
            popped cs rs \<le> pushed cs rs \<and> Stack_size s = pushed cs rs - popped cs rs)"
proof -
  from run_counts [OF assms]
  have "Stack_size s + popped cs rs = Stack_size s0 + pushed cs rs" .
  then show ?thesis by (auto simp: Stack_size_default)
qed

theorem size_is_pushed_minus_popped_witness:
  "run [Push 1, Push 2, Pop, Top, Size, Pop, Pop, Empty, Push (5 :: int)] Stack_default =
     ([Inr RVoid, Inr RVoid, Inr (RVal 2), Inr (RRef (Ref 1)), Inr (RSize 1), Inr (RVal 1),
       Inl (runtime_error ''Stack is empty''), Inr (RBool True), Inr RVoid],
      Stack_push 5 Stack_default) \<and>
   pushed [Push 1, Push 2, Pop, Top, Size, Pop, Pop, Empty, Push (5 :: int)]
     [Inr RVoid, Inr RVoid, Inr (RVal 2), Inr (RRef (Ref 1)), Inr (RSize 1), Inr (RVal 1),
       Inl (runtime_error ''Stack is empty''), Inr (RBool True), Inr RVoid] = 3 \<and>
   popped [Push 1, Push 2, Pop, Top, Size, Pop, Pop, Empty, Push (5 :: int)]
     [Inr RVoid, Inr RVoid, Inr (RVal 2), Inr (RRef (Ref 1)), Inr (RSize 1), Inr (RVal 1),
       Inl (runtime_error ''Stack is empty''), Inr (RBool True), Inr RVoid] = 2 \<and>
   Stack_size (Stack_push (5 :: int) Stack_default) = 3 - 2"
  using size_is_pushed_minus_popped [OF run_example] run_example
  by (simp add: Stack_size_def Stack_push_def Stack_default_def)

subsection \<open>is_palindrome\<close>






end
